theory Spec2Isabelle
  imports Main "HOL-Library.Sublist"
begin

section \<open>AWS Inspector report generator: a model of aws-inspector-report.js\<close>

text \<open>
  The script shells out to the AWS CLI, reshapes the JSON it gets back and writes a CSV
  file. The model below follows the source function by function. Strings are HOL strings
  (lists of 8-bit characters). A promise is the value it settles to: \<open>Inr v\<close> when it
  resolves with \<open>v\<close>, \<open>Inl m\<close> when it rejects with an error whose message is \<open>m\<close>.
  Console output is not part of the model, and neither are the prompts and the file
  written by \<^verbatim>\<open>main\<close>.
\<close>

subsection \<open>JavaScript strings and arrays\<close>

text \<open>\<^verbatim>\<open>s.includes(sub)\<close>: does \<open>sub\<close> occur in \<open>s\<close> as a contiguous run?\<close>

fun includes_str :: "string \<Rightarrow> string \<Rightarrow> bool" where
  "includes_str [] sub = (sub = [])"
| "includes_str (c # cs) sub = (prefix sub (c # cs) \<or> includes_str cs sub)"

text \<open>\<^verbatim>\<open>xs.join(sep)\<close> on an array of strings.\<close>

fun join :: "string \<Rightarrow> string list \<Rightarrow> string" where
  "join sep [] = []"
| "join sep [x] = x"
| "join sep (x # y # ys) = x @ sep @ join sep (y # ys)"

text \<open>\<^verbatim>\<open>s.replace(/,/g, ';')\<close> and \<^verbatim>\<open>s.replace(/"/g, '""')\<close>.\<close>

definition replace_commas :: "string \<Rightarrow> string" where
  "replace_commas s = map (\<lambda>c. if c = CHR '','' then CHR '';'' else c) s"

definition double_quotes :: "string \<Rightarrow> string" where
  "double_quotes s = concat (map (\<lambda>c. if c = CHR 0x22 then [CHR 0x22, CHR 0x22] else [c]) s)"

text \<open>
  A value that is either missing (\<open>None\<close> stands for both \<^verbatim>\<open>undefined\<close> and
  \<^verbatim>\<open>null\<close>) or a string is falsy when it is missing or the empty string.
  \<open>or_dash v\<close> is the source's \<^verbatim>\<open>v || '-'\<close>.
\<close>

definition or_dash :: "string option \<Rightarrow> string" where
  "or_dash v = (case v of None \<Rightarrow> ''-'' | Some s \<Rightarrow> if s = [] then ''-'' else s)"

subsection \<open>Findings\<close>

text \<open>
  A finding is the record the AWS CLI returns, with the fields \<^verbatim>\<open>convertToCsv\<close>
  reads. Every field is optional: \<open>None\<close> stands for a field that is missing or
  \<^verbatim>\<open>null\<close>. A field that is there has the type the code expects of it: a string, an
  array of strings, a number, or a nested object. Numbers (the EPSS score) are of a type
  \<open>'n\<close>; what JavaScript does with a number is passed to the functions that need it,
  as a \<open>'n number_ops\<close>: which numbers are falsy (zero and NaN), and
  \<^verbatim>\<open>String(n)\<close>. The fields \<^verbatim>\<open>type\<close>, \<^verbatim>\<open>id\<close> and \<^verbatim>\<open>text\<close> carry a suffix,
  their names being taken in Isabelle.
\<close>

record 'n number_ops =
  is_falsy :: "'n \<Rightarrow> bool"
  to_string :: "'n \<Rightarrow> string"

record ecr_container_image =
  registry :: "string option"
  repositoryName :: "string option"
  imageId :: "string option"
  imageOs :: "string option"
  imageTags :: "string list option"
  pushedAt :: "string option"

record resource_details =
  awsEcrContainerImage :: "ecr_container_image option"

record resource =
  details :: "resource_details option"
  type_field :: "string option"
  id_field :: "string option"

record cvss_details =
  cweIds :: "string list option"

record 'n epss_details =
  score :: "'n option"

record 'n vulnerability_details =
  cvss :: "cvss_details option"
  epss :: "'n epss_details option"

record 'n package_vulnerability_details =
  vulnerabilityId :: "string option"
  vulnerabilityDetails :: "'n vulnerability_details option"

record recommendation_details =
  text_field :: "string option"

record remediation_details =
  recommendation :: "recommendation_details option"

record 'n finding =
  awsAccountId :: "string option"
  severity :: "string option"
  packageVulnerabilityDetails :: "'n package_vulnerability_details option"
  remediation :: "remediation_details option"
  resources :: "resource list option"
  exploitAvailable :: "string option"

text \<open>A cell of a row before the escaping pass: a string or a number.\<close>

datatype 'n cell = Str string | Num 'n

subsection \<open>convertToCsv\<close>

definition headers :: "string list" where
  "headers =
     [''AWS Account ID'', ''Severity'', ''CVE ID'', ''CWEs'', ''EPSS Score'',
      ''Exploit Available'', ''Remediation'',
      ''Resource Type'', ''Resource ID'', ''Registry'', ''Repository Name'',
      ''Image ID'', ''Image OS'', ''Image Tags'', ''Pushed At'']"

definition default_remediation :: string where
  "default_remediation =
     ''Upgrade your installed software packages to the proposed fixed version and release.''"

text \<open>
  \<^verbatim>\<open>finding.resources && finding.resources.length > 0 ? finding.resources[0] : {}\<close>;
  \<open>None\<close> is the empty object.
\<close>

definition first_resource :: "'n finding \<Rightarrow> resource option" where
  "first_resource f =
     (case resources f of
        None \<Rightarrow> None
      | Some [] \<Rightarrow> None
      | Some (r # _) \<Rightarrow> Some r)"

text \<open>
  \<^verbatim>\<open>vulnerability.vulnerabilityDetails || {}\<close>, with
  \<^verbatim>\<open>vulnerability = finding.packageVulnerabilityDetails || {}\<close>.
\<close>

definition vulnerability_details_of :: "'n finding \<Rightarrow> 'n vulnerability_details option" where
  "vulnerability_details_of f =
     (case packageVulnerabilityDetails f of
        None \<Rightarrow> None
      | Some v \<Rightarrow> vulnerabilityDetails v)"

definition cweString :: "'n finding \<Rightarrow> string" where
  "cweString f =
     (let cweList =
        (case vulnerability_details_of f of
           None \<Rightarrow> []
         | Some d \<Rightarrow>
             (case cvss d of
                None \<Rightarrow> []
              | Some c \<Rightarrow> (case cweIds c of None \<Rightarrow> [] | Some l \<Rightarrow> l)))
      in if length cweList > 0 then join '', '' cweList else ''-'')"

definition epssCell :: "'n number_ops \<Rightarrow> 'n finding \<Rightarrow> 'n cell" where
  "epssCell ops f =
     (case vulnerability_details_of f of
        None \<Rightarrow> Str ''-''
      | Some d \<Rightarrow>
          (case epss d of
             None \<Rightarrow> Str ''-''
           | Some e \<Rightarrow>
               (case score e of
                  None \<Rightarrow> Str ''-''
                | Some n \<Rightarrow> if is_falsy ops n then Str ''-'' else Num n)))"

definition remediationText :: "'n finding \<Rightarrow> string" where
  "remediationText f =
     (case remediation f of
        None \<Rightarrow> default_remediation
      | Some r \<Rightarrow>
          (case recommendation r of
             None \<Rightarrow> default_remediation
           | Some c \<Rightarrow>
               (case text_field c of
                  None \<Rightarrow> default_remediation
                | Some t \<Rightarrow> if t = [] then default_remediation else t)))"

text \<open>
  The container image of the resource, when
  \<^verbatim>\<open>resource.details && resource.details.awsEcrContainerImage\<close> is truthy.
\<close>

definition container_image :: "resource option \<Rightarrow> ecr_container_image option" where
  "container_image res =
     (case res of
        None \<Rightarrow> None
      | Some r \<Rightarrow> (case details r of None \<Rightarrow> None | Some d \<Rightarrow> awsEcrContainerImage d))"

definition image_field :: "(ecr_container_image \<Rightarrow> string option) \<Rightarrow> resource option \<Rightarrow> string" where
  "image_field sel res =
     (case container_image res of None \<Rightarrow> ''-'' | Some i \<Rightarrow> or_dash (sel i))"

definition imageTagsCell :: "resource option \<Rightarrow> string" where
  "imageTagsCell res =
     (case container_image res of
        None \<Rightarrow> ''-''
      | Some i \<Rightarrow>
          or_dash (Some (join ''; '' (case imageTags i of None \<Rightarrow> [] | Some l \<Rightarrow> l))))"

definition resource_field :: "(resource \<Rightarrow> string option) \<Rightarrow> resource option \<Rightarrow> string" where
  "resource_field sel res = (case res of None \<Rightarrow> ''-'' | Some r \<Rightarrow> or_dash (sel r))"

definition vulnerabilityIdCell :: "'n finding \<Rightarrow> string" where
  "vulnerabilityIdCell f =
     (case packageVulnerabilityDetails f of
        None \<Rightarrow> ''-''
      | Some v \<Rightarrow> or_dash (vulnerabilityId v))"

text \<open>The row of one finding: the array the callback of \<^verbatim>\<open>findings.map\<close> returns.\<close>

definition finding_row :: "'n number_ops \<Rightarrow> 'n finding \<Rightarrow> 'n cell list" where
  "finding_row ops f =
     (let res = first_resource f in
      [Str (or_dash (awsAccountId f)),
       Str (or_dash (severity f)),
       Str (vulnerabilityIdCell f),
       Str (cweString f),
       epssCell ops f,
       Str (or_dash (exploitAvailable f)),
       Str (replace_commas (remediationText f)),
       Str (resource_field type_field res),
       Str (resource_field id_field res),
       Str (image_field registry res),
       Str (image_field repositoryName res),
       Str (image_field imageId res),
       Str (image_field imageOs res),
       Str (imageTagsCell res),
       Str (image_field pushedAt res)])"

text \<open>\<^verbatim>\<open>String(cell)\<close>.\<close>

definition cell_string :: "'n number_ops \<Rightarrow> 'n cell \<Rightarrow> string" where
  "cell_string ops c = (case c of Str s \<Rightarrow> s | Num n \<Rightarrow> to_string ops n)"

text \<open>
  The escaping pass on one cell. No cell of a row is \<^verbatim>\<open>null\<close> or
  \<^verbatim>\<open>undefined\<close>, so that branch of the source is never taken.
\<close>

definition escape_cell :: "'n number_ops \<Rightarrow> 'n cell \<Rightarrow> string" where
  "escape_cell ops c =
     (let cellStr = cell_string ops c in
      if includes_str cellStr '','' \<or> includes_str cellStr [CHR 0x22]
         \<or> includes_str cellStr [CHR 0x0A] \<or> includes_str cellStr [CHR 0x0D]
      then [CHR 0x22] @ double_quotes cellStr @ [CHR 0x22]
      else cellStr)"

text \<open>The escaped cells of the data row of one finding.\<close>

definition csv_cells :: "'n number_ops \<Rightarrow> 'n finding \<Rightarrow> string list" where
  "csv_cells ops f = map (escape_cell ops) (finding_row ops f)"

definition convertToCsv :: "'n number_ops \<Rightarrow> 'n finding list \<Rightarrow> string option" where
  "convertToCsv ops findings =
     (if length findings = 0 then None
      else
        let rows = map Str headers # map (finding_row ops) findings
        in Some (join [CHR 0x0A] (map (\<lambda>row. join '','' (map (escape_cell ops) row)) rows)))"

subsection \<open>getAwsProfiles\<close>

text \<open>
  What the function reads from the machine it runs on: two environment variables, the
  file system (\<^verbatim>\<open>fs.existsSync\<close>, and \<^verbatim>\<open>fs.readFileSync\<close> which returns the content
  or throws an error with a message) and \<^verbatim>\<open>path.join\<close>.
\<close>

record host =
  env_HOME :: "string option"
  env_USERPROFILE :: "string option"
  path_join :: "string list \<Rightarrow> string"
  existsSync :: "string \<Rightarrow> bool"
  readFileSync :: "string \<Rightarrow> string + string"

text \<open>\<^verbatim>\<open>a || b\<close> on values that are missing or strings.\<close>

definition or_js :: "string option \<Rightarrow> string option \<Rightarrow> string option" where
  "or_js a b = (case a of None \<Rightarrow> b | Some s \<Rightarrow> if s = [] then b else a)"

text \<open>
  The tail \<^verbatim>\<open>(.*?)\]\<close> of both regular expressions, matched at the head of a string:
  the shortest run of characters other than line terminators that is followed by a
  closing bracket. The result is the captured group and what follows the bracket. Of
  the line terminators of JavaScript, line feed and carriage return are 8-bit
  characters; U+2028 and U+2029 are not, and are outside the model.
\<close>

fun lazy_until_bracket :: "string \<Rightarrow> (string \<times> string) option" where
  "lazy_until_bracket [] = None"
| "lazy_until_bracket (c # cs) =
     (if c = CHR '']'' then Some ([], cs)
      else if c = CHR 0x0A \<or> c = CHR 0x0D then None
      else (case lazy_until_bracket cs of
              None \<Rightarrow> None
            | Some (cap, rest) \<Rightarrow> Some (c # cap, rest)))"

lemma lazy_until_bracket_shorter:
  "lazy_until_bracket s = Some (cap, rest) \<Longrightarrow> length rest < length s"
  by (induction s arbitrary: cap) (auto split: if_splits option.splits)

text \<open>
  The loop \<^verbatim>\<open>while ((match = re.exec(content)) !== null)\<close> for the global regular
  expression that is the literal \<open>lit\<close> followed by \<^verbatim>\<open>(.*?)\]\<close>: the list of
  \<^verbatim>\<open>match[1]\<close>, in the order found. A match is tried at each position from the
  left; after a match the search goes on behind it.
\<close>

function regex_captures :: "string \<Rightarrow> string \<Rightarrow> string list" where
  "regex_captures lit [] = []"
| "regex_captures lit (c # cs) =
     (if prefix lit (c # cs) then
        (case lazy_until_bracket (drop (length lit) (c # cs)) of
           None \<Rightarrow> regex_captures lit cs
         | Some (cap, rest) \<Rightarrow> cap # regex_captures lit rest)
      else regex_captures lit cs)"
  by pat_completeness auto
termination
proof (relation "measure (\<lambda>(lit, s). length s)")
  fix lit :: string and c cs x2 x y
  assume "lazy_until_bracket (drop (length lit) (c # cs)) = Some x2" and "(x, y) = x2"
  then have "length y < length (drop (length lit) (c # cs))"
    using lazy_until_bracket_shorter [of "drop (length lit) (c # cs)" x y] by simp
  then show "((lit, y), (lit, c # cs)) \<in> measure (\<lambda>(lit, s). length s)"
    by simp
qed simp_all

text \<open>\<^verbatim>\<open>profiles.add(name)\<close> on a Set, kept as the list of its members in insertion order.\<close>

definition set_add :: "string list \<Rightarrow> string \<Rightarrow> string list" where
  "set_add profiles name = (if name \<in> set profiles then profiles else profiles @ [name])"

text \<open>One of the two blocks that read a file when it exists and add its profile names.\<close>

definition add_profiles_from :: "host \<Rightarrow> string \<Rightarrow> string \<Rightarrow> string list \<Rightarrow> string + string list" where
  "add_profiles_from h file lit profiles =
     (if existsSync h file then
        (case readFileSync h file of
           Inl m \<Rightarrow> Inl m
         | Inr content \<Rightarrow> Inr (foldl set_add profiles (regex_captures lit content)))
      else Inr profiles)"

definition getAwsProfiles :: "host \<Rightarrow> string + string list" where
  "getAwsProfiles h =
     (case or_js (env_HOME h) (env_USERPROFILE h) of
        None \<Rightarrow> Inl ''Could not determine home directory''
      | Some homeDir \<Rightarrow>
          if homeDir = [] then Inl ''Could not determine home directory''
          else
            let credentialsPath = path_join h [homeDir, ''.aws'', ''credentials''];
                configPath = path_join h [homeDir, ''.aws'', ''config'']
            in (case add_profiles_from h credentialsPath ''['' [] of
                  Inl m \<Rightarrow> Inl m
                | Inr profiles \<Rightarrow> add_profiles_from h configPath ''[profile '' profiles))"

subsection \<open>The AWS CLI\<close>

text \<open>
  What \<^verbatim>\<open>exec\<close> hands to its callback: the error (its message) when the process
  failed, and the two output streams. The command line interface is a function from
  the commands issued so far and the command to run to that outcome; every function
  that runs a command takes the list of commands issued so far and returns it extended.
  \<^verbatim>\<open>JSON.parse\<close> is a parameter \<open>parse\<close>: the parsed value, or the message of the
  error it throws. The parsed value has the type its reader expects: a list of region
  names in \<^verbatim>\<open>getAwsRegions\<close>, the answer of \<^verbatim>\<open>list-findings\<close> in
  \<^verbatim>\<open>getInspectorFindings\<close>.
\<close>

record exec_result =
  error :: "string option"
  stdout :: string
  stderr :: string

type_synonym cli = "string list \<Rightarrow> string \<Rightarrow> exec_result"

subsection \<open>getAwsRegions\<close>

definition defaultRegions :: "string list" where
  "defaultRegions =
     [''us-east-1'', ''us-east-2'', ''us-west-1'', ''us-west-2'',
      ''ap-south-1'', ''ap-northeast-3'', ''ap-northeast-2'', ''ap-southeast-1'',
      ''ap-southeast-2'', ''ap-northeast-1'', ''ca-central-1'', ''eu-central-1'',
      ''eu-west-1'', ''eu-west-2'', ''eu-west-3'', ''eu-north-1'',
      ''sa-east-1'']"

definition regionsCommand :: "string \<Rightarrow> string" where
  "regionsCommand profile =
     (let profileArg = (if profile \<noteq> [] then ''--profile '' @ profile else [])
      in ''aws ec2 describe-regions --query \"Regions[].RegionName\" --output json ''
         @ profileArg)"

definition getAwsRegions ::
  "cli \<Rightarrow> (string \<Rightarrow> string + string list) \<Rightarrow> string \<Rightarrow> string list
     \<Rightarrow> (string + string list) \<times> string list" where
  "getAwsRegions aws parse profile issued =
     (let command = regionsCommand profile;
          r = aws issued command
      in (case error r of
            Some m \<Rightarrow> Inr defaultRegions
          | None \<Rightarrow>
              (case parse (stdout r) of
                 Inl m \<Rightarrow> Inr defaultRegions
               | Inr regions \<Rightarrow> Inr regions),
          issued @ [command]))"

subsection \<open>runAwsCommand\<close>

definition fullCommand :: "string \<Rightarrow> string \<Rightarrow> string \<Rightarrow> string" where
  "fullCommand command profile region =
     (let profileArg = (if profile \<noteq> [] then ''--profile '' @ profile else []);
          regionArg = (if region \<noteq> [] then ''--region '' @ region else [])
      in ''aws '' @ command @ '' '' @ profileArg @ '' '' @ regionArg)"

definition runAwsCommand ::
  "cli \<Rightarrow> (string \<Rightarrow> string + 'j) \<Rightarrow> string \<Rightarrow> string \<Rightarrow> string \<Rightarrow> string list
     \<Rightarrow> (string + 'j) \<times> string list" where
  "runAwsCommand aws parse command profile region issued =
     (let r = aws issued (fullCommand command profile region)
      in (case error r of
            Some m \<Rightarrow> Inl (''AWS CLI error: '' @ m)
          | None \<Rightarrow>
              (case parse (stdout r) of
                 Inl m \<Rightarrow> Inl (''Failed to parse AWS CLI output: '' @ m)
               | Inr data \<Rightarrow> Inr data),
          issued @ [fullCommand command profile region]))"

subsection \<open>getInspectorFindings\<close>

text \<open>
  The parsed answer of \<^verbatim>\<open>list-findings\<close>: \<open>None\<close> when it is falsy, else an object
  whose \<^verbatim>\<open>findings\<close> may be missing. The findings themselves are not looked at here.
\<close>

record 'f list_findings_output =
  findings :: "'f list option"

definition findings_of :: "'f list_findings_output option \<Rightarrow> 'f list" where
  "findings_of out =
     (case out of
        None \<Rightarrow> []
      | Some out \<Rightarrow> (case findings out of None \<Rightarrow> [] | Some fs \<Rightarrow> fs))"

text \<open>The \<^verbatim>\<open>switch\<close>: the critical and the high command, \<open>None\<close> in the default case.\<close>

definition filterCommands :: "string \<Rightarrow> (string \<times> string) option" where
  "filterCommands findingType =
     (if findingType = ''1'' then
        Some (''inspector2 list-findings --filter-criteria '{\"findingStatus\":[{\"comparison\":\"EQUALS\",\"value\":\"ACTIVE\"}],\"severity\":[{\"comparison\":\"EQUALS\",\"value\":\"CRITICAL\"}],\"exploitAvailable\":[{\"comparison\":\"EQUALS\",\"value\":\"YES\"}]}' --max-results 100'',
              ''inspector2 list-findings --filter-criteria '{\"findingStatus\":[{\"comparison\":\"EQUALS\",\"value\":\"ACTIVE\"}],\"severity\":[{\"comparison\":\"EQUALS\",\"value\":\"HIGH\"}],\"exploitAvailable\":[{\"comparison\":\"EQUALS\",\"value\":\"YES\"}]}' --max-results 100'')
      else if findingType = ''2'' then
        Some (''inspector2 list-findings --filter-criteria '{\"findingStatus\":[{\"comparison\":\"EQUALS\",\"value\":\"ACTIVE\"}],\"severity\":[{\"comparison\":\"EQUALS\",\"value\":\"CRITICAL\"}]}' --max-results 100'',
              ''inspector2 list-findings --filter-criteria '{\"findingStatus\":[{\"comparison\":\"EQUALS\",\"value\":\"ACTIVE\"}],\"severity\":[{\"comparison\":\"EQUALS\",\"value\":\"HIGH\"}]}' --max-results 100'')
      else if findingType = ''3'' then
        Some (''inspector2 list-findings --filter-criteria '{\"findingStatus\":[{\"comparison\":\"EQUALS\",\"value\":\"CLOSED\"}],\"severity\":[{\"comparison\":\"EQUALS\",\"value\":\"CRITICAL\"}]}' --max-results 100'',
              ''inspector2 list-findings --filter-criteria '{\"findingStatus\":[{\"comparison\":\"EQUALS\",\"value\":\"CLOSED\"}],\"severity\":[{\"comparison\":\"EQUALS\",\"value\":\"HIGH\"}]}' --max-results 100'')
      else None)"

definition getInspectorFindings ::
  "cli \<Rightarrow> (string \<Rightarrow> string + 'f list_findings_output option) \<Rightarrow> string \<Rightarrow> string
     \<Rightarrow> string \<Rightarrow> string list \<Rightarrow> (string + 'f list) \<times> string list" where
  "getInspectorFindings aws parse profile region findingType issued =
     (case filterCommands findingType of
        None \<Rightarrow> (Inl ''Invalid finding type'', issued)
      | Some (criticalFilterCommand, highFilterCommand) \<Rightarrow>
          (case runAwsCommand aws parse criticalFilterCommand profile region issued of
             (Inl m, issued1) \<Rightarrow> (Inl m, issued1)
           | (Inr criticalFindings, issued1) \<Rightarrow>
               (case runAwsCommand aws parse highFilterCommand profile region issued1 of
                  (Inl m, issued2) \<Rightarrow> (Inl m, issued2)
                | (Inr highFindings, issued2) \<Rightarrow>
                    (Inr (findings_of criticalFindings @ findings_of highFindings), issued2))))"

subsection \<open>isInspectorAvailableInRegion\<close>

definition isInspectorAvailableInRegion ::
  "cli \<Rightarrow> (string \<Rightarrow> string + 'j) \<Rightarrow> string \<Rightarrow> string \<Rightarrow> string list
     \<Rightarrow> (string + bool) \<times> string list" where
  "isInspectorAvailableInRegion aws parse region profile issued =
     (case runAwsCommand aws parse ''inspector2 list-findings --max-results 1'' profile region issued of
        (Inr data, issued1) \<Rightarrow> (Inr True, issued1)
      | (Inl m, issued1) \<Rightarrow>
          (if includes_str m ''AccessDenied'' \<or> includes_str m ''UnauthorizedOperation''
           then Inr True else Inr False,
           issued1))"

subsection \<open>Paths into a finding\<close>

text \<open>
  The value at \<^verbatim>\<open>finding.remediation.recommendation.text\<close>, \<open>None\<close> when any level
  of the path is missing.
\<close>

definition remediation_text_of :: "'n finding \<Rightarrow> string option" where
  "remediation_text_of f =
     (case remediation f of
        None \<Rightarrow> None
      | Some r \<Rightarrow> (case recommendation r of None \<Rightarrow> None | Some c \<Rightarrow> text_field c))"

text \<open>
  The text of a profile file, for the statement of what Profile Discovery finds in it: a
  sequence of sections, each a header (the opening \<open>lit\<close>, \<^verbatim>\<open>[\<close> or
  \<^verbatim>\<open>[profile \<close>, then the name and the closing bracket) followed by its body.
\<close>

definition sections_text :: "string \<Rightarrow> (string \<times> string) list \<Rightarrow> string" where
  "sections_text lit sections =
     concat (map (\<lambda>(name, body). lit @ name @ '']'' @ body) sections)"

subsection \<open>Example inputs\<close>

text \<open>
  Natural numbers as JavaScript numbers: zero is falsy, and \<^verbatim>\<open>String(n)\<close> is the
  decimal numeral.
\<close>

fun show_nat :: "nat \<Rightarrow> string" where
  "show_nat n =
     (if n < 10 then [''0123456789'' ! n]
      else show_nat (n div 10) @ [''0123456789'' ! (n mod 10)])"

declare show_nat.simps [simp del]

definition nat_ops :: "nat number_ops" where
  "nat_ops = \<lparr>is_falsy = (\<lambda>n. n = 0), to_string = show_nat\<rparr>"

text \<open>A finding with no field at all, and findings that have one part only.\<close>

definition bare_finding :: "nat finding" where
  "bare_finding =
     \<lparr>awsAccountId = None, severity = None, packageVulnerabilityDetails = None,
      remediation = None, resources = None, exploitAvailable = None\<rparr>"

definition details_without_cvss :: "nat vulnerability_details" where
  "details_without_cvss = \<lparr>cvss = None, epss = Some \<lparr>score = Some 1\<rparr>\<rparr>"

definition finding_without_cvss :: "nat finding" where
  "finding_without_cvss =
     bare_finding\<lparr>packageVulnerabilityDetails :=
        Some \<lparr>vulnerabilityId = None, vulnerabilityDetails = Some details_without_cvss\<rparr>\<rparr>"

definition finding_with_text :: "string \<Rightarrow> nat finding" where
  "finding_with_text t =
     bare_finding\<lparr>remediation := Some \<lparr>recommendation = Some \<lparr>text_field = Some t\<rparr>\<rparr>\<rparr>"

text \<open>
  A command line interface that answers every command with the same error, and one
  that answers the first command with one output and every later one with another.
  The parser knows the two outputs, and a list of three regions.
\<close>

definition failing_cli :: "string \<Rightarrow> cli" where
  "failing_cli m = (\<lambda>issued command. \<lparr>error = Some m, stdout = [], stderr = m\<rparr>)"

definition answering_cli :: "string \<Rightarrow> string \<Rightarrow> cli" where
  "answering_cli first later =
     (\<lambda>issued command.
        \<lparr>error = None, stdout = (if issued = [] then first else later), stderr = []\<rparr>)"

definition example_parse :: "string \<Rightarrow> string + nat list_findings_output option" where
  "example_parse s =
     (if s = ''critical'' then Inr (Some \<lparr>findings = Some [1, 2]\<rparr>)
      else if s = ''high'' then Inr (Some \<lparr>findings = Some [3]\<rparr>)
      else Inl ''Unexpected end of JSON input'')"


definition example_parse_regions :: "string \<Rightarrow> string + string list" where
  "example_parse_regions s =
     (if s = ''regions'' then Inr [''eu-west-1'', ''eu-west-2'', ''us-east-1'']
      else Inl ''Unexpected end of JSON input'')"

text \<open>
  A credentials file and a config file, and the machine with a given value of HOME (and
  no USERPROFILE) that holds a given list of files. Its \<^verbatim>\<open>path.join\<close> puts a slash
  between the parts.
\<close>

definition credentials_file :: "string \<times> string" where
  "credentials_file =
     (''/home/u/.aws/credentials'',
      ''[dev]'' @ [CHR 0x0A] @ ''aws_access_key_id = A'' @ [CHR 0x0A]
        @ ''[prod]'' @ [CHR 0x0A] @ ''aws_access_key_id = B'' @ [CHR 0x0A])"

definition config_file :: "string \<times> string" where
  "config_file =
     (''/home/u/.aws/config'',
      ''[profile stage]'' @ [CHR 0x0A] @ ''region = eu-west-1'' @ [CHR 0x0A])"

text \<open>
  A credentials file that names dev twice, and a config file that names stage and, again,
  dev.
\<close>

definition repeated_credentials_file :: "string \<times> string" where
  "repeated_credentials_file =
     (''/home/u/.aws/credentials'',
      ''[dev]'' @ [CHR 0x0A] @ ''aws_access_key_id = A'' @ [CHR 0x0A]
        @ ''[prod]'' @ [CHR 0x0A] @ ''aws_access_key_id = B'' @ [CHR 0x0A]
        @ ''[dev]'' @ [CHR 0x0A] @ ''aws_access_key_id = C'' @ [CHR 0x0A])"

definition shared_config_file :: "string \<times> string" where
  "shared_config_file =
     (''/home/u/.aws/config'',
      ''[profile stage]'' @ [CHR 0x0A] @ ''region = eu-west-1'' @ [CHR 0x0A]
        @ ''[profile dev]'' @ [CHR 0x0A] @ ''region = eu-west-2'' @ [CHR 0x0A])"

definition host_with :: "string option \<Rightarrow> (string \<times> string) list \<Rightarrow> host" where
  "host_with home files =
     \<lparr>env_HOME = home, env_USERPROFILE = None,
      path_join = join ''/'',
      existsSync = (\<lambda>p. map_of files p \<noteq> None),
      readFileSync =
        (\<lambda>p. case map_of files p of
               None \<Rightarrow> Inl ''ENOENT: no such file or directory''
             | Some content \<Rightarrow> Inr content)\<rparr>"

section \<open>Properties\<close>

subsection \<open>Strings\<close>

lemma includes_str_single: "includes_str s [c] \<longleftrightarrow> c \<in> set s"
  by (induction s) auto

lemma includes_str_prefix: "prefix sub s \<Longrightarrow> includes_str s sub"
  by (cases s) auto

lemma includes_str_append_left: "includes_str s sub \<Longrightarrow> includes_str (a @ s) sub"
  by (induction a) auto

lemma includes_str_append_right: "includes_str s sub \<Longrightarrow> includes_str (s @ b) sub"
proof (induction s)
  case Nil
  then show ?case by (simp add: includes_str_prefix)
next
  case (Cons c cs)
  show ?case
  proof (cases "prefix sub (c # cs)")
    case True
    then have "prefix sub ((c # cs) @ b)" by (rule prefix_prefix)
    then show ?thesis by simp
  next
    case False
    with Cons show ?thesis by simp
  qed
qed

text \<open>\<open>includes_str\<close> is the contiguous-sublist relation of the library.\<close>

lemma includes_str_sublist: "includes_str s sub \<longleftrightarrow> sublist sub s"
  by (induction s) (auto simp: sublist_Cons_right)

lemma replace_commas_no_comma: "CHR '','' \<notin> set (replace_commas t)"
  by (auto simp: replace_commas_def)

lemma replace_commas_keeps:
  "c \<noteq> CHR '','' \<Longrightarrow> c \<noteq> CHR '';'' \<Longrightarrow> c \<in> set (replace_commas t) \<longleftrightarrow> c \<in> set t"
  by (auto simp: replace_commas_def)

lemma replace_commas_nth:
  "length (replace_commas t) = length t"
  "i < length t \<Longrightarrow> replace_commas t ! i = (if t ! i = CHR '','' then CHR '';'' else t ! i)"
  by (simp_all add: replace_commas_def)

lemma double_quotes_Cons:
  "double_quotes (c # s) = (if c = CHR 0x22 then [CHR 0x22, CHR 0x22] else [c]) @ double_quotes s"
  by (simp add: double_quotes_def)

subsection \<open>The CSV serializer\<close>

lemma escape_cell_plain:
  "CHR '','' \<notin> set s \<Longrightarrow> CHR 0x22 \<notin> set s \<Longrightarrow> CHR 0x0A \<notin> set s \<Longrightarrow> CHR 0x0D \<notin> set s
   \<Longrightarrow> escape_cell ops (Str s) = s"
  by (simp add: escape_cell_def cell_string_def includes_str_single)

lemma escape_cell_dash: "escape_cell ops (Str ''-'') = ''-''"
  by (simp add: escape_cell_plain)

lemma escape_default:
  "escape_cell ops (Str (replace_commas default_remediation)) = default_remediation"
  by (simp add: escape_cell_def cell_string_def includes_str_single replace_commas_def
      default_remediation_def)

lemma remediationText_path:
  "remediationText f =
     (case remediation_text_of f of
        None \<Rightarrow> default_remediation
      | Some t \<Rightarrow> if t = [] then default_remediation else t)"
  by (simp add: remediationText_def remediation_text_of_def split: option.splits)

lemma csv_cells_nth:
  "csv_cells ops f ! 4 = escape_cell ops (epssCell ops f)"
  "csv_cells ops f ! 6 = escape_cell ops (Str (replace_commas (remediationText f)))"
  by (simp_all add: csv_cells_def finding_row_def Let_def)

lemma length_csv_cells: "length (csv_cells ops f) = 15"
  by (simp add: csv_cells_def finding_row_def Let_def)

text \<open>
  The output of \<^verbatim>\<open>convertToCsv\<close> is the header line followed by one line per finding,
  and the cells of that line are \<open>csv_cells\<close>.
\<close>

lemma escape_headers: "map (\<lambda>x. escape_cell ops (Str x)) headers = headers"
  by (simp add: headers_def escape_cell_plain)

lemma convertToCsv_lines:
  "fs \<noteq> [] \<Longrightarrow>
   convertToCsv ops fs =
     Some (join [CHR 0x0A] (join '','' headers # map (\<lambda>f. join '','' (csv_cells ops f)) fs))"
  by (simp add: convertToCsv_def Let_def escape_headers csv_cells_def comp_def)

lemma convertToCsv_empty: "convertToCsv ops [] = None"
  by (simp add: convertToCsv_def)

text \<open>
  C1, as stated, fails: the finding with no field at all has a Remediation cell that is
  not the placeholder.
\<close>

theorem csv_row_all_dashes_counterexample:
  "csv_cells nat_ops bare_finding \<noteq> replicate 15 ''-''"
proof -
  have "csv_cells nat_ops bare_finding ! 6 = default_remediation"
    by (simp add: csv_cells_nth remediationText_def bare_finding_def escape_default)
  then have "csv_cells nat_ops bare_finding ! 6 \<noteq> replicate 15 ''-'' ! 6"
    by (simp add: default_remediation_def)
  then show ?thesis by metis
qed

text \<open>
  C1, amended: for every finding in which all optional fields are absent (no
  packageVulnerabilityDetails, no remediation recommendation text, no resources, no
  exploitAvailable, no awsAccountId, no severity), the data row has 15 cells, of which
  the Remediation cell is the default remediation sentence and each of the other 14 is
  the placeholder "-".
\<close>

theorem csv_row_all_optional_absent:
  assumes "packageVulnerabilityDetails f = None"
    and "remediation_text_of f = None"
    and "resources f = None"
    and "exploitAvailable f = None"
    and "awsAccountId f = None"
    and "severity f = None"
  shows "csv_cells ops f =
     [''-'', ''-'', ''-'', ''-'', ''-'', ''-'',
      ''Upgrade your installed software packages to the proposed fixed version and release.'',
      ''-'', ''-'', ''-'', ''-'', ''-'', ''-'', ''-'', ''-'']
     \<and> convertToCsv ops [f] =
       Some (''AWS Account ID,Severity,CVE ID,CWEs,EPSS Score,Exploit Available,Remediation,Resource Type,Resource ID,Registry,Repository Name,Image ID,Image OS,Image Tags,Pushed At''
             @ [CHR 0x0A]
             @ ''-,-,-,-,-,-,Upgrade your installed software packages to the proposed fixed version and release.,-,-,-,-,-,-,-,-'')"
proof -
  have "csv_cells ops f =
     [''-'', ''-'', ''-'', ''-'', ''-'', ''-'', default_remediation,
      ''-'', ''-'', ''-'', ''-'', ''-'', ''-'', ''-'', ''-'']"
    using assms
    by (simp add: csv_cells_def finding_row_def or_dash_def vulnerabilityIdCell_def
        cweString_def vulnerability_details_of_def epssCell_def first_resource_def
        resource_field_def image_field_def imageTagsCell_def container_image_def
        remediationText_path escape_cell_dash escape_default)
  then have cells: "csv_cells ops f =
     [''-'', ''-'', ''-'', ''-'', ''-'', ''-'',
      ''Upgrade your installed software packages to the proposed fixed version and release.'',
      ''-'', ''-'', ''-'', ''-'', ''-'', ''-'', ''-'', ''-'']"
    by (simp add: default_remediation_def)
  have "convertToCsv ops [f] = Some (join [CHR 0x0A] [join '','' headers, join '','' (csv_cells ops f)])"
    by (simp add: convertToCsv_lines)
  then have "convertToCsv ops [f] =
       Some (''AWS Account ID,Severity,CVE ID,CWEs,EPSS Score,Exploit Available,Remediation,Resource Type,Resource ID,Registry,Repository Name,Image ID,Image OS,Image Tags,Pushed At''
             @ [CHR 0x0A]
             @ ''-,-,-,-,-,-,Upgrade your installed software packages to the proposed fixed version and release.,-,-,-,-,-,-,-,-'')"
    by (simp add: cells headers_def)
  with cells show ?thesis by simp
qed

theorem csv_row_all_optional_absent_witness:
  "csv_cells nat_ops bare_finding =
     [''-'', ''-'', ''-'', ''-'', ''-'', ''-'',
      ''Upgrade your installed software packages to the proposed fixed version and release.'',
      ''-'', ''-'', ''-'', ''-'', ''-'', ''-'', ''-'', ''-'']"
proof -
  have "packageVulnerabilityDetails bare_finding = None"
    and "remediation_text_of bare_finding = None"
    and "resources bare_finding = None"
    and "exploitAvailable bare_finding = None"
    and "awsAccountId bare_finding = None"
    and "severity bare_finding = None"
    by (simp_all add: bare_finding_def remediation_text_of_def)
  then show ?thesis
    using csv_row_all_optional_absent [of bare_finding nat_ops] by blast
qed

text \<open>
  C2, as stated, fails: a finding whose vulnerability details have no cvss, and an EPSS
  score of 1 beside it, has the EPSS Score cell "1", not "-".
\<close>

theorem epss_cell_cvss_counterexample:
  "vulnerability_details_of finding_without_cvss = Some details_without_cvss
   \<and> cvss details_without_cvss = None
   \<and> csv_cells nat_ops finding_without_cvss ! 4 = ''1''
   \<and> csv_cells nat_ops finding_without_cvss ! 4 \<noteq> ''-''"
  by (simp add: csv_cells_nth epssCell_def vulnerability_details_of_def
      finding_without_cvss_def bare_finding_def details_without_cvss_def nat_ops_def
      escape_cell_def cell_string_def show_nat.simps)

text \<open>
  C2, amended: for every finding, the EPSS Score cell is taken from the path
  packageVulnerabilityDetails / vulnerabilityDetails / epss / score of the finding (cvss
  is not on that path: the cell is the same whatever cvss is), and equals "-" whenever
  any level of that path is absent; a score that is there and truthy gives the cell
  \<^verbatim>\<open>String(score)\<close>, passed through the escaping like any other cell.
\<close>

theorem epss_cell_path:
  "(packageVulnerabilityDetails f = None \<longrightarrow> csv_cells ops f ! 4 = ''-'')
   \<and> (\<forall>v. packageVulnerabilityDetails f = Some v \<and> vulnerabilityDetails v = None
          \<longrightarrow> csv_cells ops f ! 4 = ''-'')
   \<and> (\<forall>v d. packageVulnerabilityDetails f = Some v \<and> vulnerabilityDetails v = Some d
          \<and> epss d = None \<longrightarrow> csv_cells ops f ! 4 = ''-'')
   \<and> (\<forall>v d e. packageVulnerabilityDetails f = Some v \<and> vulnerabilityDetails v = Some d
          \<and> epss d = Some e \<and> score e = None \<longrightarrow> csv_cells ops f ! 4 = ''-'')
   \<and> (\<forall>v d e n. packageVulnerabilityDetails f = Some v \<and> vulnerabilityDetails v = Some d
          \<and> epss d = Some e \<and> score e = Some n \<and> \<not> is_falsy ops n \<longrightarrow>
          csv_cells ops f ! 4 = escape_cell ops (Num n)
          \<and> (CHR '','' \<notin> set (to_string ops n) \<and> CHR 0x22 \<notin> set (to_string ops n)
               \<and> CHR 0x0A \<notin> set (to_string ops n) \<and> CHR 0x0D \<notin> set (to_string ops n)
             \<longrightarrow> csv_cells ops f ! 4 = to_string ops n))
   \<and> (\<forall>c. csv_cells ops
             (f\<lparr>packageVulnerabilityDetails :=
                  map_option
                    (\<lambda>v. v\<lparr>vulnerabilityDetails :=
                             map_option (\<lambda>d. d\<lparr>cvss := c\<rparr>) (vulnerabilityDetails v)\<rparr>)
                    (packageVulnerabilityDetails f)\<rparr>) ! 4
           = csv_cells ops f ! 4)"
proof -
  have plain: "escape_cell ops (Num n) = to_string ops n"
    if "CHR '','' \<notin> set (to_string ops n) \<and> CHR 0x22 \<notin> set (to_string ops n)
        \<and> CHR 0x0A \<notin> set (to_string ops n) \<and> CHR 0x0D \<notin> set (to_string ops n)" for n
    using that by (simp add: escape_cell_def cell_string_def includes_str_single)
  show ?thesis
    by (simp add: csv_cells_nth epssCell_def vulnerability_details_of_def escape_cell_dash
        plain split: option.splits)
qed

theorem epss_cell_path_witness:
  "packageVulnerabilityDetails bare_finding = None
   \<and> csv_cells nat_ops bare_finding ! 4 = ''-''
   \<and> \<not> is_falsy nat_ops 1
   \<and> to_string nat_ops 1 = ''1''
   \<and> csv_cells nat_ops finding_without_cvss ! 4 = ''1''"
  using epss_cell_path [of bare_finding nat_ops] epss_cell_path [of finding_without_cvss nat_ops]
  by (simp add: finding_without_cvss_def bare_finding_def details_without_cvss_def nat_ops_def
      escape_cell_def cell_string_def show_nat.simps)

text \<open>
  C7: for every finding whose remediation text contains a comma but no double quote,
  carriage return or newline, the serialized Remediation cell is the text with each comma
  replaced by a semicolon and every other character kept, and is not wrapped in quotes
  (it holds no double quote and no comma); for every finding whose remediation text
  contains a double quote, the cell is wrapped in double quotes, with each embedded
  double quote doubled (and each comma a semicolon).
\<close>

theorem remediation_cell_escaping:
  "(remediation_text_of f = Some t \<and> CHR '','' \<in> set t \<and> CHR 0x22 \<notin> set t
      \<and> CHR 0x0A \<notin> set t \<and> CHR 0x0D \<notin> set t
    \<longrightarrow> csv_cells ops f ! 6 = map (\<lambda>c. if c = CHR '','' then CHR '';'' else c) t
        \<and> length (csv_cells ops f ! 6) = length t
        \<and> CHR '';'' \<in> set (csv_cells ops f ! 6)
        \<and> CHR '','' \<notin> set (csv_cells ops f ! 6) \<and> CHR 0x22 \<notin> set (csv_cells ops f ! 6))
   \<and> (remediation_text_of f = Some t \<and> CHR 0x22 \<in> set t
    \<longrightarrow> csv_cells ops f ! 6 =
          [CHR 0x22]
          @ concat (map (\<lambda>c. if c = CHR 0x22 then [CHR 0x22, CHR 0x22]
                              else if c = CHR '','' then [CHR '';''] else [c]) t)
          @ [CHR 0x22]
        \<and> length (csv_cells ops f ! 6) = length t + length (filter (\<lambda>c. c = CHR 0x22) t) + 2)"
proof (intro conjI impI)
  assume a: "remediation_text_of f = Some t \<and> CHR '','' \<in> set t \<and> CHR 0x22 \<notin> set t
      \<and> CHR 0x0A \<notin> set t \<and> CHR 0x0D \<notin> set t"
  then have ne: "t \<noteq> []" by auto
  from a have plain: "escape_cell ops (Str (replace_commas t)) = replace_commas t"
    by (intro escape_cell_plain) (simp_all add: replace_commas_no_comma replace_commas_keeps)
  from a ne have "csv_cells ops f ! 6 = replace_commas t"
    by (simp add: csv_cells_nth remediationText_path plain)
  then show cell: "csv_cells ops f ! 6 = map (\<lambda>c. if c = CHR '','' then CHR '';'' else c) t"
    by (simp add: replace_commas_def)
  then show "length (csv_cells ops f ! 6) = length t"
    by simp
  from a cell show "CHR '';'' \<in> set (csv_cells ops f ! 6)"
    by force
  from cell show "CHR '','' \<notin> set (csv_cells ops f ! 6)"
    by auto
  from a cell show "CHR 0x22 \<notin> set (csv_cells ops f ! 6)"
    by auto
next
  assume a: "remediation_text_of f = Some t \<and> CHR 0x22 \<in> set t"
  then have ne: "t \<noteq> []" by auto
  from a have "CHR 0x22 \<in> set (replace_commas t)"
    by (simp add: replace_commas_keeps)
  then have "escape_cell ops (Str (replace_commas t))
      = [CHR 0x22] @ double_quotes (replace_commas t) @ [CHR 0x22]"
    by (simp add: escape_cell_def cell_string_def includes_str_single)
  moreover have "double_quotes (replace_commas s) =
      concat (map (\<lambda>c. if c = CHR 0x22 then [CHR 0x22, CHR 0x22]
                         else if c = CHR '','' then [CHR '';''] else [c]) s)" for s
    by (induction s) (simp_all add: double_quotes_def replace_commas_def)
  ultimately show cell: "csv_cells ops f ! 6 =
          [CHR 0x22]
          @ concat (map (\<lambda>c. if c = CHR 0x22 then [CHR 0x22, CHR 0x22]
                              else if c = CHR '','' then [CHR '';''] else [c]) t)
          @ [CHR 0x22]"
    using a ne by (simp add: csv_cells_nth remediationText_path)
  have "length (concat (map (\<lambda>c. if c = CHR 0x22 then [CHR 0x22, CHR 0x22]
                                  else if c = CHR '','' then [CHR '';''] else [c]) s))
          = length s + length (filter (\<lambda>c. c = CHR 0x22) s)" for s
    by (induction s) simp_all
  with cell show "length (csv_cells ops f ! 6)
      = length t + length (filter (\<lambda>c. c = CHR 0x22) t) + 2"
    by simp
qed

theorem remediation_cell_escaping_witness:
  "csv_cells nat_ops (finding_with_text ''Update a, b'') ! 6 = ''Update a; b''
   \<and> csv_cells nat_ops (finding_with_text ''Set \"x\", go'') ! 6 = ''\"Set \"\"x\"\"; go\"''"
  using remediation_cell_escaping [of "finding_with_text ''Update a, b''" "''Update a, b''" nat_ops]
    remediation_cell_escaping [of "finding_with_text ''Set \"x\", go''" "''Set \"x\", go''" nat_ops]
  by (simp add: finding_with_text_def bare_finding_def remediation_text_of_def)

text \<open>
  C10: for every finding that has no remediation.recommendation.text (a level of the
  path is missing, or the text is the empty string), the Remediation cell is the default
  sentence, which the comma substitution and the escaping leave as it is, and not the
  placeholder "-".
\<close>

theorem remediation_default_sentence:
  assumes "remediation_text_of f = None \<or> remediation_text_of f = Some []"
  shows "csv_cells ops f ! 6 =
           ''Upgrade your installed software packages to the proposed fixed version and release.''
         \<and> csv_cells ops f ! 6 \<noteq> ''-''"
proof -
  from assms have "csv_cells ops f ! 6 = default_remediation"
    by (auto simp: csv_cells_nth remediationText_path escape_default)
  then show ?thesis by (simp add: default_remediation_def)
qed

theorem remediation_default_sentence_witness:
  "csv_cells nat_ops (finding_with_text []) ! 6 =
     ''Upgrade your installed software packages to the proposed fixed version and release.''
   \<and> csv_cells nat_ops finding_without_cvss ! 6 =
     ''Upgrade your installed software packages to the proposed fixed version and release.''"
  using remediation_default_sentence [of "finding_with_text []" nat_ops]
    remediation_default_sentence [of finding_without_cvss nat_ops]
  by (simp add: finding_with_text_def finding_without_cvss_def bare_finding_def
      remediation_text_of_def)

subsection \<open>Profile discovery\<close>

lemma regex_captures_no_bracket:
  "CHR ''['' \<notin> set s \<Longrightarrow> regex_captures (CHR ''['' # lit) s = []"
  by (induction s) auto

lemma regex_captures_skip:
  "CHR ''['' \<notin> set pre \<Longrightarrow>
   regex_captures (CHR ''['' # lit) (pre @ s) = regex_captures (CHR ''['' # lit) s"
  by (induction pre) auto

lemma lazy_until_bracket_name:
  "CHR '']'' \<notin> set name \<Longrightarrow> CHR 0x0A \<notin> set name \<Longrightarrow> CHR 0x0D \<notin> set name \<Longrightarrow>
   lazy_until_bracket (name @ CHR '']'' # rest) = Some (name, rest)"
  by (induction name) auto

lemma regex_captures_header:
  assumes "CHR '']'' \<notin> set name" "CHR 0x0A \<notin> set name" "CHR 0x0D \<notin> set name"
  shows "regex_captures (c # lit) ((c # lit) @ name @ CHR '']'' # rest)
           = name # regex_captures (c # lit) rest"
  using lazy_until_bracket_name [OF assms, of rest] by simp

lemma getAwsProfiles_both_files:
  assumes "or_js (env_HOME h) (env_USERPROFILE h) = Some home" and "home \<noteq> []"
    and "existsSync h (path_join h [home, ''.aws'', ''credentials''])"
    and "readFileSync h (path_join h [home, ''.aws'', ''credentials'']) = Inr credentials"
    and "existsSync h (path_join h [home, ''.aws'', ''config''])"
    and "readFileSync h (path_join h [home, ''.aws'', ''config'']) = Inr config"
  shows "getAwsProfiles h =
           Inr (foldl set_add (foldl set_add [] (regex_captures ''['' credentials))
                  (regex_captures ''[profile '' config))"
  using assms by (simp add: getAwsProfiles_def add_profiles_from_def Let_def)

text \<open>The profiles are a set: no name occurs twice in the result.\<close>

lemma distinct_foldl_set_add: "distinct profiles \<Longrightarrow> distinct (foldl set_add profiles names)"
  by (induction names arbitrary: profiles) (auto simp: set_add_def)

lemma set_foldl_set_add: "set (foldl set_add profiles names) = set profiles \<union> set names"
  by (induction names arbitrary: profiles) (auto simp: set_add_def)

text \<open>
  C5, as stated, fails: on a machine with neither HOME nor USERPROFILE the promise is
  rejected with an error; it does not resolve with the empty list.
\<close>

theorem profiles_no_home_counterexample:
  "getAwsProfiles (host_with None [credentials_file, config_file])
     = Inl ''Could not determine home directory''
   \<and> getAwsProfiles (host_with None [credentials_file, config_file]) \<noteq> Inr []"
  by (simp add: getAwsProfiles_def host_with_def or_js_def)

text \<open>
  C5, amended: when the home directory cannot be determined (HOME and USERPROFILE are
  both unset or empty), Profile Discovery fails by raising the error "Could not determine
  home directory" to the caller; a missing credentials or config file contributes zero
  profiles and is not an error: with both files missing the result is the empty set, and
  with one file missing the result is what the other file alone contributes.
\<close>

theorem profiles_home_and_missing_files:
  "((env_HOME h = None \<or> env_HOME h = Some [])
       \<and> (env_USERPROFILE h = None \<or> env_USERPROFILE h = Some [])
      \<longrightarrow> getAwsProfiles h = Inl ''Could not determine home directory'')
   \<and> (or_js (env_HOME h) (env_USERPROFILE h) = Some home \<and> home \<noteq> []
       \<and> \<not> existsSync h (path_join h [home, ''.aws'', ''credentials''])
       \<and> \<not> existsSync h (path_join h [home, ''.aws'', ''config''])
      \<longrightarrow> getAwsProfiles h = Inr [])
   \<and> (or_js (env_HOME h) (env_USERPROFILE h) = Some home \<and> home \<noteq> []
       \<and> \<not> existsSync h (path_join h [home, ''.aws'', ''credentials''])
      \<longrightarrow> getAwsProfiles h
            = add_profiles_from h (path_join h [home, ''.aws'', ''config'']) ''[profile '' [])
   \<and> (or_js (env_HOME h) (env_USERPROFILE h) = Some home \<and> home \<noteq> []
       \<and> \<not> existsSync h (path_join h [home, ''.aws'', ''config''])
      \<longrightarrow> getAwsProfiles h
            = add_profiles_from h (path_join h [home, ''.aws'', ''credentials'']) ''['' [])"
  by (auto simp: getAwsProfiles_def add_profiles_from_def or_js_def Let_def split: sum.splits)

theorem profiles_home_and_missing_files_witness:
  "getAwsProfiles (host_with None []) = Inl ''Could not determine home directory''
   \<and> getAwsProfiles (host_with (Some ''/home/u'') []) = Inr []
   \<and> getAwsProfiles (host_with (Some ''/home/u'') [config_file]) = Inr [''stage'']
   \<and> getAwsProfiles (host_with (Some ''/home/u'') [credentials_file]) = Inr [''dev'', ''prod'']"
  using profiles_home_and_missing_files [of "host_with None []" "''/home/u''"]
    profiles_home_and_missing_files [of "host_with (Some ''/home/u'') []" "''/home/u''"]
    profiles_home_and_missing_files [of "host_with (Some ''/home/u'') [config_file]" "''/home/u''"]
    profiles_home_and_missing_files [of "host_with (Some ''/home/u'') [credentials_file]" "''/home/u''"]
  by (simp add: host_with_def or_js_def add_profiles_from_def config_file_def
      credentials_file_def set_add_def)

text \<open>
  What the loop finds in a text made of sections: the names of the headers, in order,
  repeated ones included. The text before the first header and the bodies hold no
  opening bracket; a name holds no closing bracket and no line break.
\<close>

lemma regex_captures_sections:
  assumes "CHR ''['' \<notin> set pre"
    and "\<forall>(name, body) \<in> set sections.
           CHR '']'' \<notin> set name \<and> CHR 0x0A \<notin> set name \<and> CHR 0x0D \<notin> set name
           \<and> CHR ''['' \<notin> set body"
  shows "regex_captures (CHR ''['' # lit) (pre @ sections_text (CHR ''['' # lit) sections)
           = map fst sections"
  using assms
proof (induction sections arbitrary: pre)
  case Nil
  then show ?case by (simp add: sections_text_def regex_captures_no_bracket)
next
  case (Cons entry sections)
  obtain name body where entry: "entry = (name, body)" by (cases entry)
  from Cons.prems entry have name: "CHR '']'' \<notin> set name" "CHR 0x0A \<notin> set name"
      "CHR 0x0D \<notin> set name" and body: "CHR ''['' \<notin> set body"
    by auto
  have "regex_captures (CHR ''['' # lit) (pre @ sections_text (CHR ''['' # lit) (entry # sections))
          = regex_captures (CHR ''['' # lit)
              ((CHR ''['' # lit) @ name @ CHR '']'' # (body @ sections_text (CHR ''['' # lit) sections))"
    using regex_captures_skip [OF Cons.prems(1)] by (simp add: entry sections_text_def)
  also have "\<dots> = name # regex_captures (CHR ''['' # lit)
                           (body @ sections_text (CHR ''['' # lit) sections)"
    using name by (rule regex_captures_header)
  also have "regex_captures (CHR ''['' # lit) (body @ sections_text (CHR ''['' # lit) sections)
               = map fst sections"
    using body Cons.prems(2) by (intro Cons.IH) auto
  finally show ?case by (simp add: entry)
qed

text \<open>
  C8: if the credentials file contains the headers [dev] and [prod] (any number of times,
  in any order, and no other opening bracket) and the config file contains the header
  [profile stage] (and, besides, at most headers of dev, prod and stage again),
  Profile Discovery yields exactly the set {dev, prod, stage}: three names, each once,
  however often a header is repeated.
\<close>

theorem profiles_dev_prod_stage:
  assumes "or_js (env_HOME h) (env_USERPROFILE h) = Some home" and "home \<noteq> []"
    and "existsSync h (path_join h [home, ''.aws'', ''credentials''])"
    and "readFileSync h (path_join h [home, ''.aws'', ''credentials''])
           = Inr (pre @ sections_text ''['' sections)"
    and "existsSync h (path_join h [home, ''.aws'', ''config''])"
    and "readFileSync h (path_join h [home, ''.aws'', ''config''])
           = Inr (cpre @ sections_text ''[profile '' csections)"
    and "fst ` set sections = {''dev'', ''prod''}"
    and "''stage'' \<in> fst ` set csections"
    and "fst ` set csections \<subseteq> {''dev'', ''prod'', ''stage''}"
    and "CHR ''['' \<notin> set pre \<union> set cpre"
    and "\<forall>body \<in> snd ` set sections \<union> snd ` set csections. CHR ''['' \<notin> set body"
  shows "\<exists>profiles. getAwsProfiles h = Inr profiles
           \<and> set profiles = {''dev'', ''prod'', ''stage''}
           \<and> distinct profiles \<and> length profiles = 3"
proof -
  have clean: "CHR '']'' \<notin> set name \<and> CHR 0x0A \<notin> set name \<and> CHR 0x0D \<notin> set name"
    if "name \<in> {''dev'', ''prod'', ''stage''}" for name
    using that by auto
  have "regex_captures ''['' (pre @ sections_text ''['' sections) = map fst sections"
  proof (rule regex_captures_sections)
    show "CHR ''['' \<notin> set pre" using assms(10) by simp
    show "\<forall>(name, body) \<in> set sections.
           CHR '']'' \<notin> set name \<and> CHR 0x0A \<notin> set name \<and> CHR 0x0D \<notin> set name
           \<and> CHR ''['' \<notin> set body"
    proof (clarify, intro conjI)
      fix name body
      assume mem: "(name, body) \<in> set sections"
      then have "name \<in> fst ` set sections" by force
      with assms(7) have "name \<in> {''dev'', ''prod'', ''stage''}" by auto
      from clean [OF this]
      show "CHR '']'' \<notin> set name" "CHR 0x0A \<notin> set name" "CHR 0x0D \<notin> set name"
        by simp_all
      from mem have "body \<in> snd ` set sections" by force
      with assms(11) show "CHR ''['' \<notin> set body" by blast
    qed
  qed
  then have cred: "set (regex_captures ''['' (pre @ sections_text ''['' sections))
                     = {''dev'', ''prod''}"
    using assms(7) by simp
  have "regex_captures ''[profile '' (cpre @ sections_text ''[profile '' csections)
          = map fst csections"
  proof (rule regex_captures_sections)
    show "CHR ''['' \<notin> set cpre" using assms(10) by simp
    show "\<forall>(name, body) \<in> set csections.
           CHR '']'' \<notin> set name \<and> CHR 0x0A \<notin> set name \<and> CHR 0x0D \<notin> set name
           \<and> CHR ''['' \<notin> set body"
    proof (clarify, intro conjI)
      fix name body
      assume mem: "(name, body) \<in> set csections"
      then have "name \<in> fst ` set csections" by force
      with assms(9) have "name \<in> {''dev'', ''prod'', ''stage''}" by auto
      from clean [OF this]
      show "CHR '']'' \<notin> set name" "CHR 0x0A \<notin> set name" "CHR 0x0D \<notin> set name"
        by simp_all
      from mem have "body \<in> snd ` set csections" by force
      with assms(11) show "CHR ''['' \<notin> set body" by blast
    qed
  qed
  then have conf: "set (regex_captures ''[profile '' (cpre @ sections_text ''[profile '' csections))
                     = fst ` set csections"
    by simp
  define profiles where
    "profiles = foldl set_add (foldl set_add [] (regex_captures ''['' (pre @ sections_text ''['' sections)))
                  (regex_captures ''[profile '' (cpre @ sections_text ''[profile '' csections))"
  have result: "getAwsProfiles h = Inr profiles"
    unfolding profiles_def by (rule getAwsProfiles_both_files [OF assms(1-6)])
  have "set profiles = {''dev'', ''prod''} \<union> fst ` set csections"
    unfolding profiles_def by (simp only: set_foldl_set_add cred conf) simp
  with assms(8,9) have members: "set profiles = {''dev'', ''prod'', ''stage''}"
    by auto
  have dist: "distinct profiles"
    unfolding profiles_def by (intro distinct_foldl_set_add) simp
  from dist have "length profiles = card (set profiles)"
    by (simp add: distinct_card)
  with members have "length profiles = 3"
    by simp
  with result members dist show ?thesis by blast
qed

theorem profiles_dev_prod_stage_witness:
  "getAwsProfiles (host_with (Some ''/home/u'') [repeated_credentials_file, shared_config_file])
     = Inr [''dev'', ''prod'', ''stage'']
   \<and> getAwsProfiles (host_with (Some ''/home/u'') [credentials_file, config_file])
     = Inr [''dev'', ''prod'', ''stage'']"
proof -
  let ?h = "host_with (Some ''/home/u'') [repeated_credentials_file, shared_config_file]"
  have "\<exists>profiles. getAwsProfiles ?h = Inr profiles
        \<and> set profiles = {''dev'', ''prod'', ''stage''}
        \<and> distinct profiles \<and> length profiles = 3"
    by (rule profiles_dev_prod_stage
        [where home = "''/home/u''" and pre = "[]" and cpre = "[]"
           and sections = "[(''dev'', [CHR 0x0A] @ ''aws_access_key_id = A'' @ [CHR 0x0A]),
                            (''prod'', [CHR 0x0A] @ ''aws_access_key_id = B'' @ [CHR 0x0A]),
                            (''dev'', [CHR 0x0A] @ ''aws_access_key_id = C'' @ [CHR 0x0A])]"
           and csections = "[(''stage'', [CHR 0x0A] @ ''region = eu-west-1'' @ [CHR 0x0A]),
                             (''dev'', [CHR 0x0A] @ ''region = eu-west-2'' @ [CHR 0x0A])]"])
      (auto simp: host_with_def or_js_def repeated_credentials_file_def
        shared_config_file_def sections_text_def)
  moreover have "getAwsProfiles ?h = Inr [''dev'', ''prod'', ''stage'']"
    by (simp add: getAwsProfiles_def host_with_def or_js_def add_profiles_from_def
        repeated_credentials_file_def shared_config_file_def set_add_def)
  moreover have "getAwsProfiles (host_with (Some ''/home/u'') [credentials_file, config_file])
     = Inr [''dev'', ''prod'', ''stage'']"
    by (simp add: getAwsProfiles_def host_with_def or_js_def add_profiles_from_def
        config_file_def credentials_file_def set_add_def)
  ultimately show ?thesis by simp
qed

subsection \<open>Region catalog\<close>

text \<open>
  C6: for any failure of the region query (the process fails, or its output does not
  parse), the Region Catalog returns exactly the fixed fallback list of 17 region
  identifiers, in a fixed order, after one external query; and whatever the query does,
  the promise resolves: no error is raised to the caller.
\<close>

theorem regions_fallback:
  assumes "error (aws issued (regionsCommand profile)) \<noteq> None
           \<or> (\<exists>m. parse (stdout (aws issued (regionsCommand profile))) = Inl m)"
  shows "getAwsRegions aws parse profile issued =
           (Inr [''us-east-1'', ''us-east-2'', ''us-west-1'', ''us-west-2'',
                 ''ap-south-1'', ''ap-northeast-3'', ''ap-northeast-2'', ''ap-southeast-1'',
                 ''ap-southeast-2'', ''ap-northeast-1'', ''ca-central-1'', ''eu-central-1'',
                 ''eu-west-1'', ''eu-west-2'', ''eu-west-3'', ''eu-north-1'',
                 ''sa-east-1''],
            issued @ [regionsCommand profile])
         \<and> length defaultRegions = 17
         \<and> (\<exists>regions. fst (getAwsRegions aws' parse' profile' issued') = Inr regions)"
  using assms
  by (auto simp: getAwsRegions_def Let_def defaultRegions_def split: option.splits sum.splits)

theorem regions_fallback_witness:
  "fst (getAwsRegions (failing_cli ''Command failed'') example_parse_regions ''dev'' [])
     = Inr defaultRegions
   \<and> fst (getAwsRegions (answering_cli ''<html>'' ''<html>'') example_parse_regions ''dev'' [])
     = Inr defaultRegions
   \<and> length defaultRegions = 17"
  using regions_fallback [where aws = "failing_cli ''Command failed''" and issued = "[]"
      and profile = "''dev''" and parse = example_parse_regions]
    regions_fallback [where aws = "answering_cli ''<html>'' ''<html>''" and issued = "[]"
      and profile = "''dev''" and parse = example_parse_regions]
  by (simp add: failing_cli_def answering_cli_def example_parse_regions_def defaultRegions_def)

subsection \<open>Command runner\<close>

lemma includes_str_fullCommand:
  "includes_str command sub \<Longrightarrow> includes_str (fullCommand command profile region) sub"
  unfolding fullCommand_def Let_def
  by (intro includes_str_append_left includes_str_append_right)

lemma runAwsCommand_log:
  "snd (runAwsCommand aws parse cmd profile region l) = l @ [fullCommand cmd profile region]"
  by (simp add: runAwsCommand_def Let_def)

lemma runAwsCommand_Inr:
  "runAwsCommand aws parse cmd profile region l = (Inr out, l') \<Longrightarrow>
   error (aws l (fullCommand cmd profile region)) = None
   \<and> parse (stdout (aws l (fullCommand cmd profile region))) = Inr out"
  by (auto simp: runAwsCommand_def Let_def split: option.splits sum.splits)

subsection \<open>Availability probe\<close>

text \<open>
  C4: the Availability Probe returns true when the underlying call succeeds, returns true
  when the call fails with an error whose message contains "AccessDenied" or
  "UnauthorizedOperation", and returns false for every other failure. It issues one
  command.
\<close>

theorem availability_probe_result:
  "(fst (runAwsCommand aws parse ''inspector2 list-findings --max-results 1'' profile region issued)
        = Inr data
      \<longrightarrow> fst (isInspectorAvailableInRegion aws parse region profile issued) = Inr True)
   \<and> (fst (runAwsCommand aws parse ''inspector2 list-findings --max-results 1'' profile region issued)
        = Inl m
      \<and> (includes_str m ''AccessDenied'' \<or> includes_str m ''UnauthorizedOperation'')
      \<longrightarrow> fst (isInspectorAvailableInRegion aws parse region profile issued) = Inr True)
   \<and> (fst (runAwsCommand aws parse ''inspector2 list-findings --max-results 1'' profile region issued)
        = Inl m
      \<and> \<not> includes_str m ''AccessDenied'' \<and> \<not> includes_str m ''UnauthorizedOperation''
      \<longrightarrow> fst (isInspectorAvailableInRegion aws parse region profile issued) = Inr False)
   \<and> (error (aws issued (fullCommand ''inspector2 list-findings --max-results 1'' profile region))
        = Some e
      \<and> (includes_str e ''AccessDenied'' \<or> includes_str e ''UnauthorizedOperation'')
      \<longrightarrow> fst (isInspectorAvailableInRegion aws parse region profile issued) = Inr True)
   \<and> snd (isInspectorAvailableInRegion aws parse region profile issued)
       = issued @ [fullCommand ''inspector2 list-findings --max-results 1'' profile region]"
proof -
  have signal: "includes_str (''AWS CLI error: '' @ e) sub" if "includes_str e sub" for sub
    using that by (rule includes_str_append_left)
  show ?thesis
    using signal [of "''AccessDenied''"] signal [of "''UnauthorizedOperation''"]
    by (auto simp: isInspectorAvailableInRegion_def runAwsCommand_def Let_def
        split: prod.splits sum.splits option.splits)
qed

theorem availability_probe_result_witness:
  "fst (isInspectorAvailableInRegion (answering_cli ''critical'' ''high'') example_parse
          ''eu-west-1'' ''dev'' []) = Inr True
   \<and> fst (isInspectorAvailableInRegion (failing_cli ''An error occurred (AccessDeniedException)'')
          example_parse ''eu-west-1'' ''dev'' []) = Inr True
   \<and> fst (isInspectorAvailableInRegion (failing_cli ''Could not connect to the endpoint URL'')
          example_parse ''eu-west-1'' ''dev'' []) = Inr False"
  using availability_probe_result [where aws = "answering_cli ''critical'' ''high''"
      and parse = example_parse and region = "''eu-west-1''" and profile = "''dev''"
      and issued = "[]" and data = "Some \<lparr>findings = Some [1, 2]\<rparr>"]
    availability_probe_result [where aws = "failing_cli ''An error occurred (AccessDeniedException)''"
      and parse = example_parse and region = "''eu-west-1''" and profile = "''dev''"
      and issued = "[]" and m = "''AWS CLI error: An error occurred (AccessDeniedException)''"
      and e = "''An error occurred (AccessDeniedException)''"]
    availability_probe_result [where aws = "failing_cli ''Could not connect to the endpoint URL''"
      and parse = example_parse and region = "''eu-west-1''" and profile = "''dev''"
      and issued = "[]" and m = "''AWS CLI error: Could not connect to the endpoint URL''"]
  by (simp add: runAwsCommand_def answering_cli_def failing_cli_def example_parse_def)

subsection \<open>Finding retrieval\<close>

lemma filterCommands_2_critical:
  "filterCommands ''2'' = Some (crit, high) \<Longrightarrow>
   includes_str crit ''\"findingStatus\":[{\"comparison\":\"EQUALS\",\"value\":\"ACTIVE\"}]''
   \<and> includes_str crit ''\"severity\":[{\"comparison\":\"EQUALS\",\"value\":\"CRITICAL\"}]''"
  by (auto simp: filterCommands_def)

lemma filterCommands_2_high:
  "filterCommands ''2'' = Some (crit, high) \<Longrightarrow>
   includes_str high ''\"findingStatus\":[{\"comparison\":\"EQUALS\",\"value\":\"ACTIVE\"}]''
   \<and> includes_str high ''\"severity\":[{\"comparison\":\"EQUALS\",\"value\":\"HIGH\"}]''"
  by (auto simp: filterCommands_def)




lemma getInspectorFindings_log:
  "filterCommands findingType = Some (crit, high) \<Longrightarrow>
   snd (getInspectorFindings aws parse profile region findingType issued)
     = issued @ [fullCommand crit profile region]
   \<or> snd (getInspectorFindings aws parse profile region findingType issued)
     = issued @ [fullCommand crit profile region, fullCommand high profile region]"
  using runAwsCommand_log [of aws parse crit profile region issued]
    runAwsCommand_log [of aws parse high profile region "issued @ [fullCommand crit profile region]"]
  by (auto simp: getInspectorFindings_def split: prod.splits sum.splits)

lemma getInspectorFindings_Inr:
  "filterCommands findingType = Some (crit, high) \<Longrightarrow>
   getInspectorFindings aws parse profile region findingType issued = (Inr fs, issued') \<Longrightarrow>
   issued' = issued @ [fullCommand crit profile region, fullCommand high profile region]
   \<and> (\<exists>c h. runAwsCommand aws parse crit profile region issued
                = (Inr c, issued @ [fullCommand crit profile region])
          \<and> runAwsCommand aws parse high profile region (issued @ [fullCommand crit profile region])
                = (Inr h, issued')
          \<and> fs = findings_of c @ findings_of h)"
  using runAwsCommand_log [of aws parse crit profile region issued]
    runAwsCommand_log [of aws parse high profile region "issued @ [fullCommand crit profile region]"]
  by (auto simp: getInspectorFindings_def split: prod.splits sum.splits)

lemma getInspectorFindings_both_succeed:
  "filterCommands findingType = Some (crit, high) \<Longrightarrow>
   runAwsCommand aws parse crit profile region issued = (Inr c, issued1) \<Longrightarrow>
   runAwsCommand aws parse high profile region issued1 = (Inr h, issued2) \<Longrightarrow>
   getInspectorFindings aws parse profile region findingType issued
     = (Inr (findings_of c @ findings_of h),
        issued @ [fullCommand crit profile region, fullCommand high profile region])"
  using runAwsCommand_log [of aws parse crit profile region issued]
    runAwsCommand_log [of aws parse high profile region issued1]
  by (auto simp: getInspectorFindings_def)

lemma getInspectorFindings_invalid:
  "filterCommands findingType = None \<Longrightarrow>
   getInspectorFindings aws parse profile region findingType issued
     = (Inl ''Invalid finding type'', issued)"
  by (simp add: getInspectorFindings_def)

text \<open>
  C3: given scenario "all-active" (finding type '2'), the two commands of Finding
  Retrieval both carry the status predicate ACTIVE, the first the severity CRITICAL and
  the second the severity HIGH. When both queries succeed, the retrieval returns the
  findings of the critical query followed by those of the high query, and has issued
  exactly these two commands, in that order. Whenever it returns a sequence, both queries
  have succeeded, so exactly two were issued; and in no case is any other command issued
  (when the critical query fails the retrieval raises its error, and the high query is
  not issued).
\<close>

theorem all_active_two_queries:
  assumes "filterCommands ''2'' = Some (crit, high)"
  shows "includes_str (fullCommand crit profile region)
           ''\"findingStatus\":[{\"comparison\":\"EQUALS\",\"value\":\"ACTIVE\"}]''
       \<and> includes_str (fullCommand crit profile region)
           ''\"severity\":[{\"comparison\":\"EQUALS\",\"value\":\"CRITICAL\"}]''
       \<and> includes_str (fullCommand high profile region)
           ''\"findingStatus\":[{\"comparison\":\"EQUALS\",\"value\":\"ACTIVE\"}]''
       \<and> includes_str (fullCommand high profile region)
           ''\"severity\":[{\"comparison\":\"EQUALS\",\"value\":\"HIGH\"}]''
       \<and> (runAwsCommand aws parse crit profile region issued = (Inr c, issued_c)
            \<and> runAwsCommand aws parse high profile region issued_c = (Inr h, issued_h)
          \<longrightarrow> getInspectorFindings aws parse profile region ''2'' issued
                = (Inr (findings_of c @ findings_of h),
                   issued @ [fullCommand crit profile region, fullCommand high profile region]))
       \<and> (getInspectorFindings aws parse profile region ''2'' issued = (Inr fs, issued')
          \<longrightarrow> issued' = issued @ [fullCommand crit profile region, fullCommand high profile region]
              \<and> (\<exists>c h. runAwsCommand aws parse crit profile region issued
                           = (Inr c, issued @ [fullCommand crit profile region])
                     \<and> runAwsCommand aws parse high profile region
                           (issued @ [fullCommand crit profile region]) = (Inr h, issued')
                     \<and> fs = findings_of c @ findings_of h))
       \<and> (snd (getInspectorFindings aws parse profile region ''2'' issued)
             = issued @ [fullCommand crit profile region]
          \<or> snd (getInspectorFindings aws parse profile region ''2'' issued)
             = issued @ [fullCommand crit profile region, fullCommand high profile region])"
proof (intro conjI impI)
  from assms show "includes_str (fullCommand crit profile region)
           ''\"findingStatus\":[{\"comparison\":\"EQUALS\",\"value\":\"ACTIVE\"}]''"
    by (intro includes_str_fullCommand) (simp add: filterCommands_2_critical)
  from assms show "includes_str (fullCommand crit profile region)
           ''\"severity\":[{\"comparison\":\"EQUALS\",\"value\":\"CRITICAL\"}]''"
    by (intro includes_str_fullCommand) (simp add: filterCommands_2_critical)
  from assms show "includes_str (fullCommand high profile region)
           ''\"findingStatus\":[{\"comparison\":\"EQUALS\",\"value\":\"ACTIVE\"}]''"
    by (intro includes_str_fullCommand) (simp add: filterCommands_2_high)
  from assms show "includes_str (fullCommand high profile region)
           ''\"severity\":[{\"comparison\":\"EQUALS\",\"value\":\"HIGH\"}]''"
    by (intro includes_str_fullCommand) (simp add: filterCommands_2_high)
  show "getInspectorFindings aws parse profile region ''2'' issued
          = (Inr (findings_of c @ findings_of h),
             issued @ [fullCommand crit profile region, fullCommand high profile region])"
    if "runAwsCommand aws parse crit profile region issued = (Inr c, issued_c)
        \<and> runAwsCommand aws parse high profile region issued_c = (Inr h, issued_h)"
    using assms that by (intro getInspectorFindings_both_succeed) auto
  show "issued' = issued @ [fullCommand crit profile region, fullCommand high profile region]"
    if "getInspectorFindings aws parse profile region ''2'' issued = (Inr fs, issued')"
    using getInspectorFindings_Inr [OF assms that] by simp
  show "\<exists>c h. runAwsCommand aws parse crit profile region issued
                 = (Inr c, issued @ [fullCommand crit profile region])
           \<and> runAwsCommand aws parse high profile region
                 (issued @ [fullCommand crit profile region]) = (Inr h, issued')
           \<and> fs = findings_of c @ findings_of h"
    if "getInspectorFindings aws parse profile region ''2'' issued = (Inr fs, issued')"
    using getInspectorFindings_Inr [OF assms that] by blast
  show "snd (getInspectorFindings aws parse profile region ''2'' issued)
             = issued @ [fullCommand crit profile region]
          \<or> snd (getInspectorFindings aws parse profile region ''2'' issued)
             = issued @ [fullCommand crit profile region, fullCommand high profile region]"
    using assms by (rule getInspectorFindings_log)
qed

theorem all_active_two_queries_witness:
  "fst (getInspectorFindings (answering_cli ''critical'' ''high'') example_parse
          ''dev'' ''eu-west-1'' ''2'' []) = Inr [1, 2, 3]
   \<and> length (snd (getInspectorFindings (answering_cli ''critical'' ''high'') example_parse
          ''dev'' ''eu-west-1'' ''2'' [])) = 2"
proof -
  obtain crit high where fc: "filterCommands ''2'' = Some (crit, high)"
    by (simp add: filterCommands_def)
  have rc: "runAwsCommand (answering_cli ''critical'' ''high'') example_parse crit
              ''dev'' ''eu-west-1'' []
            = (Inr (Some \<lparr>findings = Some [1, 2]\<rparr>), [fullCommand crit ''dev'' ''eu-west-1''])"
    by (simp add: runAwsCommand_def answering_cli_def example_parse_def)
  have rh: "runAwsCommand (answering_cli ''critical'' ''high'') example_parse high
              ''dev'' ''eu-west-1'' [fullCommand crit ''dev'' ''eu-west-1'']
            = (Inr (Some \<lparr>findings = Some [3]\<rparr>),
               [fullCommand crit ''dev'' ''eu-west-1'', fullCommand high ''dev'' ''eu-west-1''])"
    by (simp add: runAwsCommand_def answering_cli_def example_parse_def)
  from all_active_two_queries [OF fc] rc rh
  have "getInspectorFindings (answering_cli ''critical'' ''high'') example_parse
          ''dev'' ''eu-west-1'' ''2'' []
        = (Inr (findings_of (Some \<lparr>findings = Some [1, 2]\<rparr>)
                @ findings_of (Some \<lparr>findings = Some [3]\<rparr>)),
           [] @ [fullCommand crit ''dev'' ''eu-west-1'', fullCommand high ''dev'' ''eu-west-1''])"
    by blast
  then show ?thesis by (simp add: findings_of_def)
qed




end
